theory Spec2Isabelle
  imports Complex_Main "HOL-Library.Log_Nat"
begin

section \<open>The capture-and-transform pipeline of the watercolor camera app\<close>

text \<open>
  The development follows the three source files: the service
  \<^verbatim>\<open>src/services/geminiService.ts\<close> (image normalizer and transformation client),
  the \<^verbatim>\<open>Camera\<close> component (capture surface) and \<^verbatim>\<open>App.tsx\<close> (application
  controller). All definitions come first, the lemmas and theorems follow.
\<close>

subsection \<open>JavaScript numbers\<close>

text \<open>
  \<^verbatim>\<open>resizeImage\<close> computes the scaled side with two floating-point operations
  (\<^verbatim>\<open>height *= maxDimension / width\<close>). A JavaScript number is an IEEE 754 binary64
  value, and the result of an operation is the exact result rounded to the nearest
  representable value, ties to even. A finite number is modelled by the rational it
  denotes, and \<open>fl\<close> is that rounding to 53 significant bits. Overflow and subnormal
  numbers are not modelled: the operands here are image dimensions and their quotients,
  which lie between \<open>2\<^sup>-\<^sup>3\<^sup>2\<close> and \<open>2\<^sup>3\<^sup>2\<close>.
\<close>

definition expo :: "rat \<Rightarrow> int" where
  \<comment> \<open>the binary exponent of a positive number: \<open>2 powi expo x \<le> x < 2 powi (expo x + 1)\<close>\<close>
  "expo x = (let (p, q) = quotient_of x; d = bitlen p - bitlen q
             in if 2 powi d \<le> x then d else d - 1)"

definition round_half_even :: "rat \<Rightarrow> int" where
  "round_half_even m =
     (let f = \<lfloor>m\<rfloor>; r = m - of_int f
      in if r < 1 / 2 then f else if 1 / 2 < r then f + 1
         else if even f then f else f + 1)"

definition fl :: "rat \<Rightarrow> rat" where
  "fl x = (if x = 0 then 0
           else let e = expo \<bar>x\<bar> - 52
                in sgn x * of_int (round_half_even (\<bar>x\<bar> / 2 powi e)) * 2 powi e)"

text \<open>
  \<^verbatim>\<open>canvas.width = width\<close> assigns a number to an attribute of IDL type
  \<^verbatim>\<open>unsigned long\<close>: the number is truncated towards zero and reduced modulo
  \<open>2\<^sup>3\<^sup>2\<close>; a reflected attribute keeps its default when the value exceeds
  \<open>2\<^sup>3\<^sup>1 - 1\<close> (the defaults of a canvas are 300 and 150).
\<close>

definition trunc :: "rat \<Rightarrow> int" where
  "trunc v = (if 0 \<le> v then \<lfloor>v\<rfloor> else - \<lfloor>- v\<rfloor>)"

definition canvas_set :: "nat \<Rightarrow> rat \<Rightarrow> nat" where
  "canvas_set dflt v =
     (let n = trunc v mod 2 ^ 32 in if n \<le> 2147483647 then nat n else dflt)"

subsection \<open>Image Normalizer: \<^verbatim>\<open>resizeImage\<close>\<close>

text \<open>
  The dimension arithmetic of \<^verbatim>\<open>img.onload\<close>, lines 15 to 31 of the service.
  \<open>w\<close> and \<open>h\<close> are \<^verbatim>\<open>img.width\<close> and \<^verbatim>\<open>img.height\<close>; the result is
  \<^verbatim>\<open>(canvas.width, canvas.height)\<close>, the dimensions of the image that is encoded.
  The bound is a whole number of pixels (the only call passes the default 1024).
\<close>

definition resize_dims :: "nat \<Rightarrow> nat \<Rightarrow> nat \<Rightarrow> nat \<times> nat" where
  "resize_dims w h maxDimension =
     (let width = (of_nat w :: rat); height = (of_nat h :: rat);
          m = (of_nat maxDimension :: rat);
          (width', height') =
            (if width > height
             then (if width > m then (m, fl (height * fl (m / width))) else (width, height))
             else (if height > m then (fl (width * fl (m / height)), m) else (width, height)))
      in (canvas_set 300 width', canvas_set 150 height'))"

text \<open>
  A promise either fulfils with a value, rejects with an error, or never settles.
  A rejection carries the \<^verbatim>\<open>message\<close> property of the thrown value, \<open>None\<close> when
  the value has none (the service reads it as \<^verbatim>\<open>error.message?.includes\<close>).
\<close>

datatype 'a promise = Fulfilled 'a | Rejected "string option" | Pending

text \<open>
  What the service needs from its surroundings: the configured key
  (\<^verbatim>\<open>process.env.GEMINI_API_KEY\<close>, \<open>None\<close> when undefined), the browser's image
  decoder (the intrinsic size of a data URL once \<^verbatim>\<open>onload\<close> fires, \<open>None\<close> when
  the image cannot be decoded and \<^verbatim>\<open>onload\<close> never fires), the JPEG encoder behind
  \<^verbatim>\<open>canvas.toDataURL('image/jpeg', q)\<close> for a source drawn at the given canvas size,
  and the remote model behind \<^verbatim>\<open>ai.models.generateContent\<close>.
\<close>

datatype blob = Blob (data: "string option") (mimeType: "string option")

datatype part = Part (part_text: "string option") (inlineData: "blob option")

datatype content = Content (parts: "part list option")

datatype candidate = Candidate (content: "content option")

datatype response = Response (candidates: "candidate list option")

record env =
  API_KEY :: "string option"
  decode :: "string \<Rightarrow> (nat \<times> nat) option"
  toDataURL :: "string \<Rightarrow> nat \<Rightarrow> nat \<Rightarrow> rat \<Rightarrow> string"
  generateContent :: "string option \<Rightarrow> response promise"

definition resizeImage :: "env \<Rightarrow> string \<Rightarrow> nat \<Rightarrow> string promise" where
  \<comment> \<open>the promise is given only a \<^verbatim>\<open>resolve\<close> callback, called from \<^verbatim>\<open>onload\<close>\<close>
  "resizeImage ev base64Str maxDimension =
     (case decode ev base64Str of
        None \<Rightarrow> Pending
      | Some (w, h) \<Rightarrow>
          (case resize_dims w h maxDimension of
             (cw, ch) \<Rightarrow> Fulfilled (toDataURL ev base64Str cw ch (85 / 100))))"

subsection \<open>Strings\<close>

fun starts_with :: "string \<Rightarrow> string \<Rightarrow> bool" where
  "starts_with s [] = True"
| "starts_with [] (p # ps) = False"
| "starts_with (c # cs) (p # ps) = (c = p \<and> starts_with cs ps)"

fun js_includes :: "string \<Rightarrow> string \<Rightarrow> bool" where
  \<comment> \<open>\<^verbatim>\<open>String.prototype.includes\<close>: a case-sensitive substring test\<close>
  "js_includes [] p = (p = [])"
| "js_includes (c # cs) p = (starts_with (c # cs) p \<or> js_includes cs p)"

definition split_comma_1 :: "string \<Rightarrow> string option" where
  \<comment> \<open>\<^verbatim>\<open>s.split(',')[1]\<close>: the text between the first and the second comma,
      undefined when there is no comma\<close>
  "split_comma_1 s =
     (case dropWhile (\<lambda>c. c \<noteq> CHR '','') s of
        [] \<Rightarrow> None
      | _ # rest \<Rightarrow> Some (takeWhile (\<lambda>c. c \<noteq> CHR '','') rest))"

definition js_string :: "string option \<Rightarrow> string" where
  \<comment> \<open>a value interpolated into a template literal\<close>
  "js_string v = (case v of None \<Rightarrow> ''undefined'' | Some s \<Rightarrow> s)"

definition falsy :: "string option \<Rightarrow> bool" where
  \<comment> \<open>\<^verbatim>\<open>!v\<close> for a string or undefined\<close>
  "falsy v = (case v of None \<Rightarrow> True | Some s \<Rightarrow> s = [])"

subsection \<open>Transformation Client: \<^verbatim>\<open>transformToWatercolor\<close>\<close>

definition parts_of :: "response \<Rightarrow> part list" where
  \<comment> \<open>\<^verbatim>\<open>response.candidates?.[0]?.content?.parts || []\<close>\<close>
  "parts_of r =
     (case candidates r of
        None \<Rightarrow> []
      | Some [] \<Rightarrow> []
      | Some (c # _) \<Rightarrow>
          (case content c of
             None \<Rightarrow> []
           | Some ct \<Rightarrow> (case parts ct of None \<Rightarrow> [] | Some ps \<Rightarrow> ps)))"

fun scan_parts :: "part list \<Rightarrow> string" where
  \<comment> \<open>the \<^verbatim>\<open>for\<close> loop of lines 68 to 74: \<^verbatim>\<open>transformedUrl\<close> starts empty and
      the loop breaks at the first part with \<^verbatim>\<open>inlineData\<close>\<close>
  "scan_parts [] = []"
| "scan_parts (p # ps) =
     (case inlineData p of
        Some b \<Rightarrow> ''data:image/png;base64,'' @ js_string (data b)
      | None \<Rightarrow> scan_parts ps)"

definition missing_key_message :: string where
  "missing_key_message = ''Gemini API Key is missing. Please configure it in the Secrets panel.''"

definition empty_result_message :: string where
  "empty_result_message = ''The artist encountered an error. Please try another shot.''"

definition safety_message :: string where
  "safety_message = ''This image couldn't be processed due to safety guidelines.''"

definition network_message :: string where
  "network_message = ''Network error. Please check your connection and try again.''"

definition catch_block :: "string option \<Rightarrow> string promise" where
  \<comment> \<open>the \<^verbatim>\<open>catch (error)\<close> of lines 81 to 87, given \<^verbatim>\<open>error.message\<close>\<close>
  "catch_block msg =
     (if (case msg of None \<Rightarrow> False | Some s \<Rightarrow> js_includes s ''Safety'')
      then Rejected (Some safety_message)
      else Rejected (Some network_message))"

text \<open>
  The effects a caller can observe are recorded in order: that normalization ran on an
  image, and that a request with a given payload went to the remote model.
\<close>

datatype effect = Normalize string | RemoteCall "string option"

definition transformToWatercolor :: "env \<Rightarrow> string \<Rightarrow> effect list \<times> string promise" where
  "transformToWatercolor ev base64Image =
     (if falsy (API_KEY ev) then ([], Rejected (Some missing_key_message))
      else
        (case resizeImage ev base64Image 1024 of
           Pending \<Rightarrow> ([Normalize base64Image], Pending)
         | Rejected e \<Rightarrow> ([Normalize base64Image], Rejected e)
         | Fulfilled optimizedImage \<Rightarrow>
             (let imageData = split_comma_1 optimizedImage;
                  seen = [Normalize base64Image, RemoteCall imageData]
              in case generateContent ev imageData of
                   Pending \<Rightarrow> (seen, Pending)
                 | Rejected reason \<Rightarrow> (seen, catch_block reason)
                 | Fulfilled response \<Rightarrow>
                     (let transformedUrl = scan_parts (parts_of response)
                      in if transformedUrl = []
                         then (seen, catch_block (Some empty_result_message))
                         else (seen, Fulfilled transformedUrl)))))"

subsection \<open>Capture Surface: the still frame\<close>

datatype facing = User | Environment

text \<open>
  A video frame is a list of pixel rows, top to bottom, each row left to right, as the
  sensor delivers it. The 2D context keeps a transformation matrix
  \<open>Matrix a b c d e f\<close> that sends the point \<open>(x, y)\<close> of user space to
  \<open>(a x + c y + e, b x + d y + f)\<close> on the canvas; \<^verbatim>\<open>translate\<close> and \<^verbatim>\<open>scale\<close>
  multiply it on the right, as the canvas API defines them.
\<close>

record 'p video =
  videoWidth :: nat
  videoHeight :: nat
  frame :: "'p list list"

datatype matrix = Matrix rat rat rat rat rat rat

definition identity_matrix :: matrix where
  "identity_matrix = Matrix 1 0 0 1 0 0"

fun translate :: "rat \<Rightarrow> rat \<Rightarrow> matrix \<Rightarrow> matrix" where
  "translate tx ty (Matrix a b c d e f) =
     Matrix a b c d (a * tx + c * ty + e) (b * tx + d * ty + f)"

fun scale :: "rat \<Rightarrow> rat \<Rightarrow> matrix \<Rightarrow> matrix" where
  "scale sx sy (Matrix a b c d e f) = Matrix (a * sx) (b * sx) (c * sy) (d * sy) e f"

record 'p canvas =
  canvas_width :: nat
  canvas_height :: nat
  pixel :: "nat \<Rightarrow> nat \<Rightarrow> 'p option"

definition blank :: "nat \<Rightarrow> nat \<Rightarrow> 'p canvas" where
  \<comment> \<open>assigning \<^verbatim>\<open>canvas.width\<close> and \<^verbatim>\<open>canvas.height\<close> clears the bitmap\<close>
  "blank w h = \<lparr>canvas_width = w, canvas_height = h, pixel = (\<lambda>X Y. None)\<rparr>"

text \<open>
  \<^verbatim>\<open>drawImage(video, dx, dy, dw, dh)\<close> paints the frame over the rectangle
  \<open>dx, dy, dw, dh\<close> of user space. The canvas pixel in column \<open>X\<close> and row \<open>Y\<close> takes
  the colour of the frame pixel under the point that the matrix sends to the pixel's
  centre; a pixel whose centre falls outside the rectangle keeps its colour.
\<close>

fun sample :: "matrix \<Rightarrow> 'p video \<Rightarrow> rat \<Rightarrow> rat \<Rightarrow> rat \<Rightarrow> rat \<Rightarrow> nat \<Rightarrow> nat \<Rightarrow> 'p option" where
  "sample (Matrix a b c d e f) v dx dy dw dh X Y =
     (let det = a * d - b * c
      in if det = 0 \<or> dw \<le> 0 \<or> dh \<le> 0 then None
         else
           (let px = of_nat X + 1 / 2 - e; py = of_nat Y + 1 / 2 - f;
                x = (d * px - c * py) / det; y = (a * py - b * px) / det
            in if dx \<le> x \<and> x < dx + dw \<and> dy \<le> y \<and> y < dy + dh
               then
                 (let col = nat \<lfloor>(x - dx) * of_nat (videoWidth v) / dw\<rfloor>;
                      row = nat \<lfloor>(y - dy) * of_nat (videoHeight v) / dh\<rfloor>
                  in if row < length (frame v) \<and> col < length (frame v ! row)
                     then Some (frame v ! row ! col) else None)
               else None))"

definition drawImage ::
  "matrix \<Rightarrow> 'p video \<Rightarrow> rat \<Rightarrow> rat \<Rightarrow> rat \<Rightarrow> rat \<Rightarrow> 'p canvas \<Rightarrow> 'p canvas" where
  "drawImage m v dx dy dw dh cv =
     cv\<lparr>pixel := (\<lambda>X Y. case sample m v dx dy dw dh X Y of
                            Some colour \<Rightarrow> Some colour
                          | None \<Rightarrow> pixel cv X Y)\<rparr>"

definition bitmap :: "'p canvas \<Rightarrow> 'p option list list" where
  "bitmap cv = map (\<lambda>Y. map (\<lambda>X. pixel cv X Y) [0 ..< canvas_width cv]) [0 ..< canvas_height cv]"

definition canvas_toDataURL ::
  "('p option list list \<Rightarrow> rat \<Rightarrow> string) \<Rightarrow> 'p canvas \<Rightarrow> rat \<Rightarrow> string" where
  \<comment> \<open>a canvas without pixels encodes as \<^verbatim>\<open>data:,\<close>; otherwise the JPEG encoder \<open>enc\<close>
      runs on the bitmap\<close>
  "canvas_toDataURL enc cv q =
     (if canvas_width cv = 0 \<or> canvas_height cv = 0 then ''data:,'' else enc (bitmap cv) q)"

definition capturePhoto ::
  "('p option list list \<Rightarrow> rat \<Rightarrow> string) \<Rightarrow> facing \<Rightarrow> 'p video option \<Rightarrow> bool \<Rightarrow> bool
     \<Rightarrow> string option" where
  \<comment> \<open>\<open>videoRef\<close> is \<^verbatim>\<open>videoRef.current\<close>, \<open>canvasRef\<close> says whether
      \<^verbatim>\<open>canvasRef.current\<close> is set and \<open>has_ctx\<close> whether \<^verbatim>\<open>getContext('2d')\<close>
      returned a context; the result is the argument of \<^verbatim>\<open>onCapture\<close>, \<open>None\<close> when
      it is not called; the haptic pulse is left out\<close>
  "capturePhoto enc facingMode videoRef canvasRef has_ctx =
     (case videoRef of
        None \<Rightarrow> None
      | Some video \<Rightarrow>
          if \<not> canvasRef then None
          else
            (let width = videoWidth video; height = videoHeight video;
                 cv = blank width height
             in if \<not> has_ctx then None
                else
                  (let m = (if facingMode = User
                            then scale (- 1) 1 (translate (of_nat width) 0 identity_matrix)
                            else identity_matrix);
                       cv' = drawImage m video 0 0 (of_nat width) (of_nat height) cv
                   in Some (canvas_toDataURL enc cv' (95 / 100)))))"

definition well_formed :: "'p video \<Rightarrow> bool" where
  \<comment> \<open>the frame has \<^verbatim>\<open>videoHeight\<close> rows of \<^verbatim>\<open>videoWidth\<close> pixels\<close>
  "well_formed v \<longleftrightarrow>
     length (frame v) = videoHeight v \<and> list_all (\<lambda>row. length row = videoWidth v) (frame v)"

subsection \<open>Capture Surface: the camera session\<close>

text \<open>
  The \<^verbatim>\<open>Camera\<close> component keeps the stream in React state. A callback made by
  \<^verbatim>\<open>useCallback(..., [stream])\<close> sees the value \<^verbatim>\<open>stream\<close> had in the render that
  made it. The effect has the dependencies \<^verbatim>\<open>[isActive, facingMode]\<close>: it runs at the
  mount and in a render where one of the two changed, with the callbacks of that render,
  and the function it returns (\<^verbatim>\<open>stopStream\<close> of that render) is kept as cleanup
  until the next run or the unmount. A render caused by \<^verbatim>\<open>setStream\<close> alone makes
  new callbacks but neither runs the effect nor replaces the kept cleanup.

  A session is a \<^verbatim>\<open>MediaStream\<close> returned by \<^verbatim>\<open>getUserMedia\<close>, named by a
  number; it is live until \<^verbatim>\<open>stop()\<close> is called on its tracks. The torch state
  (\<^verbatim>\<open>hasFlash\<close>, \<^verbatim>\<open>isFlashOn\<close>) does not touch sessions and is left out.
\<close>

record camera =
  inst :: nat
  isActive :: bool
  stream :: "nat option"
  facingMode :: facing
  cameraError :: "(string \<times> string) option"
  cleanup :: "nat option"

text \<open>
  \<open>inst\<close> tells one mounted instance of the component from the next;
  \<open>cleanup\<close> is the \<^verbatim>\<open>stream\<close> seen by the kept cleanup function.
  \<open>requests\<close> are the \<^verbatim>\<open>getUserMedia\<close> calls that have not settled, each with
  the instance that awaits it.
\<close>

record device =
  mounted :: "camera option"
  live :: "nat list"
  requests :: "nat list"
  sessions_made :: nat
  instances_made :: nat

definition setStream :: "nat option \<Rightarrow> device \<Rightarrow> device" where
  "setStream v dv = dv\<lparr>mounted := map_option (\<lambda>c. c\<lparr>stream := v\<rparr>) (mounted dv)\<rparr>"

definition setError :: "(string \<times> string) option \<Rightarrow> device \<Rightarrow> device" where
  "setError v dv = dv\<lparr>mounted := map_option (\<lambda>c. c\<lparr>cameraError := v\<rparr>) (mounted dv)\<rparr>"

definition stopStream :: "nat option \<Rightarrow> device \<Rightarrow> device" where
  \<comment> \<open>the first argument is the \<^verbatim>\<open>stream\<close> the callback sees\<close>
  "stopStream seen dv =
     (case seen of
        None \<Rightarrow> dv
      | Some s \<Rightarrow> setStream None (dv\<lparr>live := removeAll s (live dv)\<rparr>))"

definition startCamera :: "nat \<Rightarrow> nat option \<Rightarrow> device \<Rightarrow> device" where
  \<comment> \<open>up to the \<^verbatim>\<open>await\<close>: the call of instance \<open>i\<close> joins the open requests\<close>
  "startCamera i seen dv =
     (let dv1 = stopStream seen dv; dv2 = setError None dv1
      in dv2\<lparr>requests := requests dv2 @ [i]\<rparr>)"

definition effect_body :: "camera \<Rightarrow> device \<Rightarrow> device" where
  \<comment> \<open>the effect of lines 74 to 81, run in the render whose state is \<open>c\<close>\<close>
  "effect_body c dv =
     (let dv1 = (if isActive c then startCamera (inst c) (stream c) dv
                 else stopStream (stream c) dv)
      in dv1\<lparr>mounted := map_option (\<lambda>c'. c'\<lparr>cleanup := stream c\<rparr>) (mounted dv1)\<rparr>)"

definition rerender :: "camera \<Rightarrow> device \<Rightarrow> device" where
  \<comment> \<open>a render with changed dependencies: the kept cleanup runs, then the effect\<close>
  "rerender c dv = effect_body c (stopStream (cleanup c) (dv\<lparr>mounted := Some c\<rparr>))"

definition remove_nth :: "nat \<Rightarrow> 'a list \<Rightarrow> 'a list" where
  "remove_nth k xs = take k xs @ drop (Suc k) xs"

definition camera_error_of :: "string \<Rightarrow> string \<times> string" where
  \<comment> \<open>the \<^verbatim>\<open>catch\<close> of \<^verbatim>\<open>startCamera\<close>, by \<^verbatim>\<open>err.name\<close>\<close>
  "camera_error_of name =
     (if name = ''NotAllowedError''
      then (''Permission Denied'',
            ''Please allow camera access in your browser settings to use Aquarelle AI.'')
      else if name = ''NotFoundError''
      then (''No Camera Found'', ''We couldn't detect a camera on this device.'')
      else (''Camera Error'', ''An unexpected error occurred while starting the camera.''))"

datatype camera_event =
    Mount bool
  | Unmount
  | SetActive bool
  | SwitchFacing
  | Retry
  | GotStream nat
  | Refused nat string

fun camera_step :: "camera_event \<Rightarrow> device \<Rightarrow> device" where
  "camera_step (Mount active) dv =
     (case mounted dv of
        Some c \<Rightarrow> dv
      | None \<Rightarrow>
          (let c = \<lparr>inst = instances_made dv, isActive = active, stream = None,
                    facingMode = Environment, cameraError = None, cleanup = None\<rparr>
           in effect_body c (dv\<lparr>mounted := Some c, instances_made := Suc (instances_made dv)\<rparr>)))"
| "camera_step Unmount dv =
     (case mounted dv of
        None \<Rightarrow> dv
      | Some c \<Rightarrow> (stopStream (cleanup c) dv)\<lparr>mounted := None\<rparr>)"
| "camera_step (SetActive active) dv =
     (case mounted dv of
        None \<Rightarrow> dv
      | Some c \<Rightarrow> if isActive c = active then dv else rerender (c\<lparr>isActive := active\<rparr>) dv)"
| "camera_step SwitchFacing dv =
     (case mounted dv of
        None \<Rightarrow> dv
      | Some c \<Rightarrow>
          if cameraError c \<noteq> None then dv
          else rerender (c\<lparr>facingMode := (if facingMode c = User then Environment else User)\<rparr>) dv)"
| "camera_step Retry dv =
     (case mounted dv of
        None \<Rightarrow> dv
      | Some c \<Rightarrow> if cameraError c = None then dv else startCamera (inst c) (stream c) dv)"
| "camera_step (GotStream k) dv =
     (if k < length (requests dv)
      then
        (let i = requests dv ! k; s = sessions_made dv;
             dv1 = dv\<lparr>live := live dv @ [s], sessions_made := Suc s,
                      requests := remove_nth k (requests dv)\<rparr>
         in case mounted dv1 of
              None \<Rightarrow> dv1
            | Some c \<Rightarrow> if inst c = i then setStream (Some s) dv1 else dv1)
      else dv)"
| "camera_step (Refused k name) dv =
     (if k < length (requests dv)
      then
        (let i = requests dv ! k;
             dv1 = dv\<lparr>requests := remove_nth k (requests dv)\<rparr>
         in case mounted dv1 of
              None \<Rightarrow> dv1
            | Some c \<Rightarrow> if inst c = i then setError (Some (camera_error_of name)) dv1 else dv1)
      else dv)"

definition camera_run :: "camera_event list \<Rightarrow> device \<Rightarrow> device" where
  "camera_run evs dv = foldl (\<lambda>d e. camera_step e d) dv evs"

definition no_device :: device where
  "no_device = \<lparr>mounted = None, live = [], requests = [], sessions_made = 0, instances_made = 0\<rparr>"

subsection \<open>Application Controller: \<^verbatim>\<open>App\<close>\<close>

datatype app_state = Idle | Camera | Processing | Preview

text \<open>
  The five \<^verbatim>\<open>useState\<close> cells of \<^verbatim>\<open>App\<close>, and the calls of
  \<^verbatim>\<open>transformToWatercolor\<close> that \<^verbatim>\<open>handleCapture\<close> is awaiting, each with the
  image it was given.
\<close>

record app =
  state :: app_state
  originalImage :: "string option"
  transformedImage :: "string option"
  error :: "string option"
  showComparison :: bool
  awaited :: "string list"

definition initial_app :: app where
  "initial_app = \<lparr>state = Idle, originalImage = None, transformedImage = None,
                   error = None, showComparison = False, awaited = []\<rparr>"

definition handleCapture_begin :: "string \<Rightarrow> app \<Rightarrow> app" where
  \<comment> \<open>lines 32 to 37, up to the \<^verbatim>\<open>await\<close>\<close>
  "handleCapture_begin imageData s =
     s\<lparr>originalImage := Some imageData, state := Processing, error := None,
       awaited := awaited s @ [imageData]\<rparr>"

definition message_or_default :: "string option \<Rightarrow> string" where
  \<comment> \<open>\<^verbatim>\<open>err.message || "Failed to transform image. Please try again."\<close>\<close>
  "message_or_default m =
     (case m of
        None \<Rightarrow> ''Failed to transform image. Please try again.''
      | Some t \<Rightarrow> if t = [] then ''Failed to transform image. Please try again.'' else t)"

definition handleCapture_resume :: "env \<Rightarrow> nat \<Rightarrow> app \<Rightarrow> app" where
  \<comment> \<open>lines 38 to 50: the awaited call number \<open>k\<close> settles; a call that never
      settles stays awaited\<close>
  "handleCapture_resume ev k s =
     (case snd (transformToWatercolor ev (awaited s ! k)) of
        Pending \<Rightarrow> s
      | Fulfilled result \<Rightarrow>
          s\<lparr>transformedImage := Some result, state := Preview,
            awaited := remove_nth k (awaited s)\<rparr>
      | Rejected m \<Rightarrow>
          s\<lparr>error := Some (message_or_default m), state := Camera,
            awaited := remove_nth k (awaited s)\<rparr>)"

definition reset :: "app \<Rightarrow> app" where
  "reset s = s\<lparr>originalImage := None, transformedImage := None, state := Camera,
               showComparison := False\<rparr>"

text \<open>
  An event reaches its handler through the element that carries it, and \<^verbatim>\<open>App\<close>
  renders each element under a test of \<^verbatim>\<open>state\<close>: the open button in
  \<^verbatim>\<open>idle\<close>; the \<^verbatim>\<open>Camera\<close> component (whose shutter calls \<^verbatim>\<open>handleCapture\<close>)
  and the back button in \<^verbatim>\<open>camera\<close>; reset and compare in \<^verbatim>\<open>preview\<close> with a
  transformed image present. Download and share read the transformed image and change
  no state.

  The screens are children of \<^verbatim>\<open>AnimatePresence mode="wait"\<close> with an exit
  animation, so the camera screen stays on the page, with its shutter and its back
  button, while it fades out after \<^verbatim>\<open>state\<close> has left \<^verbatim>\<open>camera\<close>. Neither
  \<^verbatim>\<open>handleCapture\<close> nor the back handler tests \<^verbatim>\<open>state\<close>, so a capture or a
  back is accepted in whatever state it arrives; in particular a second capture is
  accepted while the first is awaited.
\<close>

datatype app_event =
    OpenStudio
  | Back
  | Capture string
  | Settle nat
  | ResetClick
  | ToggleComparison

fun app_step :: "env \<Rightarrow> app_event \<Rightarrow> app \<Rightarrow> app" where
  "app_step ev OpenStudio s = (if state s = Idle then s\<lparr>state := Camera\<rparr> else s)"
| "app_step ev Back s = s\<lparr>state := Idle\<rparr>"
| "app_step ev (Capture imageData) s = handleCapture_begin imageData s"
| "app_step ev (Settle k) s =
     (if k < length (awaited s) then handleCapture_resume ev k s else s)"
| "app_step ev ResetClick s =
     (if state s = Preview \<and> transformedImage s \<noteq> None then reset s else s)"
| "app_step ev ToggleComparison s =
     (if state s = Preview \<and> transformedImage s \<noteq> None
      then s\<lparr>showComparison := \<not> showComparison s\<rparr> else s)"

definition app_from :: "env \<Rightarrow> app \<Rightarrow> app_event list \<Rightarrow> app" where
  "app_from ev s evs = foldl (\<lambda>s e. app_step ev e s) s evs"

definition app_run :: "env \<Rightarrow> app_event list \<Rightarrow> app" where
  "app_run ev evs = app_from ev initial_app evs"





subsection \<open>Concrete surroundings for the worked examples\<close>

definition sample_env :: "response promise \<Rightarrow> env" where
  \<comment> \<open>a key is configured, every image but \<^verbatim>\<open>data:,\<close> decodes to 640 by 480 pixels,
      and the remote call settles as given\<close>
  "sample_env remote =
     \<lparr>API_KEY = Some ''key'',
      decode = (\<lambda>s. if s = ''data:,'' then None else Some (640, 480)),
      toDataURL = (\<lambda>src w h q. ''data:image/jpeg;base64,/9j/4AAQ''),
      generateContent = (\<lambda>payload. remote)\<rparr>"

definition respond :: "part list \<Rightarrow> response promise" where
  "respond ps = Fulfilled (Response (Some [Candidate (Some (Content (Some ps)))]))"

definition choosy_env :: env where
  \<comment> \<open>the encoder hands the source on as it is, and the remote model paints every
      payload but \<^verbatim>\<open>BBBB\<close>, for which the call fails\<close>
  "choosy_env =
     \<lparr>API_KEY = Some ''key'',
      decode = (\<lambda>s. if s = ''data:,'' then None else Some (640, 480)),
      toDataURL = (\<lambda>src w h q. src),
      generateContent =
        (\<lambda>payload. case payload of
                      None \<Rightarrow> Rejected None
                    | Some p \<Rightarrow>
                        if p = ''BBBB'' then Rejected (Some ''fetch failed'')
                        else Fulfilled (Response (Some [Candidate (Some (Content (Some
                               [Part None (Some (Blob (Some (''painted'' @ p))
                                  (Some ''image/png'')))])))])))\<rparr>"

definition text_part :: "string \<Rightarrow> part" where
  "text_part t = Part (Some t) None"

definition image_part :: "string \<Rightarrow> part" where
  "image_part d = Part None (Some (Blob (Some d) (Some ''image/png'')))"

definition raw_encoder :: "char option list list \<Rightarrow> rat \<Rightarrow> string" where
  \<comment> \<open>a stand-in encoder that writes the pixels out row by row, \<^verbatim>\<open>.\<close> for an
      unpainted pixel and \<^verbatim>\<open>/\<close> after each row\<close>
  "raw_encoder rows q =
     concat (map (\<lambda>row. map (\<lambda>p. case p of None \<Rightarrow> CHR ''.'' | Some c \<Rightarrow> c) row @ ''/'') rows)"

subsection \<open>The invariant of orderly runs\<close>


section \<open>Properties\<close>

subsection \<open>Rounding and the normalizer\<close>














lemma resize_dims_cases:
  "resize_dims w h b =
     (if h < w then (if b < w then (canvas_set 300 (of_nat b), canvas_set 150 (fl (of_nat h * fl (of_nat b / of_nat w))))
                     else (canvas_set 300 (of_nat w), canvas_set 150 (of_nat h)))
      else (if b < h then (canvas_set 300 (fl (of_nat w * fl (of_nat b / of_nat h))), canvas_set 150 (of_nat b))
            else (canvas_set 300 (of_nat w), canvas_set 150 (of_nat h))))"
  by (simp add: resize_dims_def Let_def)





lemma resize_dims_800_600: "resize_dims 800 600 1024 = (800, 600)"
  by (simp add: resize_dims_cases canvas_set_def trunc_def)



subsection \<open>The transformation client\<close>

lemma starts_with_iff: "starts_with s p \<longleftrightarrow> (\<exists>b. s = p @ b)"
  by (induction s p rule: starts_with.induct) auto

lemma js_includes_iff: "js_includes s p \<longleftrightarrow> (\<exists>a b. s = a @ p @ b)"
proof (induction s)
  case Nil
  then show ?case by auto
next
  case (Cons c cs)
  show ?case
  proof
    assume "js_includes (c # cs) p"
    then consider "starts_with (c # cs) p" | "js_includes cs p" by auto
    then show "\<exists>a b. c # cs = a @ p @ b"
    proof cases
      case 1
      then obtain b where "c # cs = p @ b" by (auto simp: starts_with_iff)
      then have "c # cs = [] @ p @ b" by simp
      then show ?thesis by blast
    next
      case 2
      with Cons obtain a b where "cs = a @ p @ b" by auto
      then have "c # cs = (c # a) @ p @ b" by simp
      then show ?thesis by blast
    qed
  next
    assume "\<exists>a b. c # cs = a @ p @ b"
    then obtain a b where ab: "c # cs = a @ p @ b" by blast
    show "js_includes (c # cs) p"
    proof (cases a)
      case Nil
      with ab have "starts_with (c # cs) p" by (auto simp: starts_with_iff)
      then show ?thesis by simp
    next
      case (Cons x a')
      with ab have "cs = a' @ p @ b" by simp
      with Cons.IH have "js_includes cs p" by blast
      then show ?thesis by simp
    qed
  qed
qed

lemma resizeImage_never_rejects: "resizeImage ev s m \<noteq> Rejected e"
  by (simp add: resizeImage_def split: option.splits prod.splits)

lemma resizeImage_undecodable: "decode ev s = None \<Longrightarrow> resizeImage ev s m = Pending"
  by (simp add: resizeImage_def)

lemma resizeImage_decodable:
  "decode ev s = Some (w, h) \<Longrightarrow>
   resizeImage ev s m =
     Fulfilled (toDataURL ev s (fst (resize_dims w h m)) (snd (resize_dims w h m)) (85 / 100))"
  by (simp add: resizeImage_def split: prod.splits)

lemma scan_parts_no_image:
  "list_all (\<lambda>p. inlineData p = None) ps \<Longrightarrow> scan_parts ps = []"
  by (induction ps) auto

lemma scan_parts_first_image:
  "list_all (\<lambda>p. inlineData p = None) ts \<Longrightarrow> inlineData p = Some b \<Longrightarrow>
   scan_parts (ts @ p # rest) = ''data:image/png;base64,'' @ js_string (data b)"
  by (induction ts) auto

lemma scan_parts_empty_iff: "scan_parts ps = [] \<longleftrightarrow> list_all (\<lambda>p. inlineData p = None) ps"
  by (induction ps) (auto split: option.splits)

lemma catch_block_cases:
  "catch_block m = Rejected (Some safety_message) \<or> catch_block m = Rejected (Some network_message)"
  by (simp add: catch_block_def)

text \<open>
  Claim C2. Without a configured key (undefined or empty) the call rejects with the
  configuration message and no effect is observed: normalization has not run and no
  request has been sent.
\<close>

theorem missing_key_fails_first:
  "falsy (API_KEY ev) \<Longrightarrow>
   transformToWatercolor ev img =
     ([], Rejected (Some ''Gemini API Key is missing. Please configure it in the Secrets panel.''))"
  by (simp add: transformToWatercolor_def missing_key_message_def)

text \<open>
  The theorem with the key undefined.
\<close>

theorem missing_key_fails_first_witness:
  "falsy (API_KEY ((sample_env (respond [image_part ''iVBORw0KGgo='']))\<lparr>API_KEY := None\<rparr>))
   \<and> transformToWatercolor ((sample_env (respond [image_part ''iVBORw0KGgo='']))\<lparr>API_KEY := None\<rparr>)
        ''data:image/jpeg;base64,/9j/2wBD'' =
      ([], Rejected (Some ''Gemini API Key is missing. Please configure it in the Secrets panel.''))"
  using missing_key_fails_first
    [of "(sample_env (respond [image_part ''iVBORw0KGgo='']))\<lparr>API_KEY := None\<rparr>"
        "''data:image/jpeg;base64,/9j/2wBD''"]
  by (simp add: falsy_def)

text \<open>
  Claim C3. When the remote call fails, the caller sees the safety message if the
  failure's message contains \<^verbatim>\<open>Safety\<close>, and the network message otherwise (also when
  the failure has no message).
\<close>

theorem remote_failure_messages:
  assumes "\<not> falsy (API_KEY ev)"
    and "resizeImage ev img 1024 = Fulfilled optimized"
    and "generateContent ev (split_comma_1 optimized) = Rejected reason"
  shows "snd (transformToWatercolor ev img) =
     Rejected (Some (if (\<exists>r a b. reason = Some r \<and> r = a @ ''Safety'' @ b)
                     then ''This image couldn't be processed due to safety guidelines.''
                     else ''Network error. Please check your connection and try again.''))"
proof -
  have "(case reason of None \<Rightarrow> False | Some s \<Rightarrow> js_includes s ''Safety'')
          \<longleftrightarrow> (\<exists>r a b. reason = Some r \<and> r = a @ ''Safety'' @ b)"
    by (cases reason) (simp_all only: js_includes_iff option.case, auto)
  then show ?thesis
    using assms
    by (simp add: transformToWatercolor_def catch_block_def safety_message_def
        network_message_def del: js_includes.simps)
qed

lemma sample_env_resize:
  "s \<noteq> ''data:,'' \<Longrightarrow>
   resizeImage (sample_env remote) s 1024 = Fulfilled ''data:image/jpeg;base64,/9j/4AAQ''"
  by (simp add: resizeImage_def sample_env_def split: prod.splits)

text \<open>
  The theorem for a failure that mentions \<^verbatim>\<open>Safety\<close> and for one that does not.
\<close>

theorem remote_failure_messages_witness:
  "snd (transformToWatercolor (sample_env (Rejected (Some ''Blocked by Safety filter'')))
          ''data:image/jpeg;base64,/9j/2wBD'') =
     Rejected (Some ''This image couldn't be processed due to safety guidelines.'')
   \<and> snd (transformToWatercolor (sample_env (Rejected (Some ''fetch failed'')))
          ''data:image/jpeg;base64,/9j/2wBD'') =
     Rejected (Some ''Network error. Please check your connection and try again.'')"
proof -
  let ?img = "''data:image/jpeg;base64,/9j/2wBD''"
  let ?opt = "''data:image/jpeg;base64,/9j/4AAQ''"
  have key: "\<not> falsy (API_KEY (sample_env r))" for r
    by (simp add: sample_env_def falsy_def)
  have rs: "resizeImage (sample_env r) ?img 1024 = Fulfilled ?opt" for r
    by (rule sample_env_resize) simp
  have gc: "generateContent (sample_env r) (split_comma_1 ?opt) = r" for r
    by (simp add: sample_env_def)
  have yes: "\<exists>r a b. Some ''Blocked by Safety filter'' = Some r \<and> r = a @ ''Safety'' @ b"
  proof -
    have "''Blocked by Safety filter'' = ''Blocked by '' @ ''Safety'' @ '' filter''" by simp
    then show ?thesis by blast
  qed
  have no: "\<not> (\<exists>r a b. Some ''fetch failed'' = Some r \<and> r = a @ ''Safety'' @ b)"
  proof -
    have "\<not> js_includes ''fetch failed'' ''Safety''" by simp
    then show ?thesis by (simp only: js_includes_iff) auto
  qed
  show ?thesis
    using remote_failure_messages
        [OF key [of "Rejected (Some ''Blocked by Safety filter'')"]
            rs [of "Rejected (Some ''Blocked by Safety filter'')"]
            gc [of "Rejected (Some ''Blocked by Safety filter'')"]]
      remote_failure_messages
        [OF key [of "Rejected (Some ''fetch failed'')"]
            rs [of "Rejected (Some ''fetch failed'')"]
            gc [of "Rejected (Some ''fetch failed'')"]]
      yes no
    by (simp only: if_True if_False simp_thms)
qed


lemma transform_returns_first_image:
  assumes "\<not> falsy (API_KEY ev)"
    and "resizeImage ev img 1024 = Fulfilled optimized"
    and "generateContent ev (split_comma_1 optimized) = Fulfilled r"
    and "parts_of r = ts @ p # rest"
    and "list_all (\<lambda>p. inlineData p = None) ts"
    and "inlineData p = Some b"
  shows "transformToWatercolor ev img =
     ([Normalize img, RemoteCall (split_comma_1 optimized)],
      Fulfilled (''data:image/png;base64,'' @ js_string (data b)))"
  using assms
  by (simp add: transformToWatercolor_def Let_def scan_parts_first_image)

lemma transform_empty_result:
  assumes "\<not> falsy (API_KEY ev)"
    and "resizeImage ev img 1024 = Fulfilled optimized"
    and "generateContent ev (split_comma_1 optimized) = Fulfilled r"
    and "list_all (\<lambda>p. inlineData p = None) (parts_of r)"
  shows "transformToWatercolor ev img =
     ([Normalize img, RemoteCall (split_comma_1 optimized)], Rejected (Some network_message))"
proof -
  have "\<not> js_includes empty_result_message ''Safety''"
    by (simp add: empty_result_message_def)
  then show ?thesis
    using assms
    by (simp add: transformToWatercolor_def Let_def scan_parts_no_image catch_block_def)
qed

lemma parts_of_respond: "parts_of (Response (Some [Candidate (Some (Content (Some ps)))])) = ps"
  by (simp add: parts_of_def)

text \<open>
  Claim C1. The first part with inline data is returned and text parts are skipped. A
  response without inline data throws the empty-result error inside the \<^verbatim>\<open>try\<close>
  block, so the \<^verbatim>\<open>catch\<close> of the same function replaces it: for the parts
  \<open>[text, text]\<close> the caller sees the network message, not the empty-result message; for
  \<open>[text, image]\<close> the caller gets that image.
\<close>

theorem text_only_response_surfaces_network_error:
  "snd (transformToWatercolor
          (sample_env (respond [text_part ''Here is'', text_part ''your painting'']))
          ''data:image/jpeg;base64,/9j/2wBD'') =
     Rejected (Some ''Network error. Please check your connection and try again.'')
   \<and> snd (transformToWatercolor
          (sample_env (respond [text_part ''Here is'', image_part ''iVBORw0KGgo='']))
          ''data:image/jpeg;base64,/9j/2wBD'') =
     Fulfilled ''data:image/png;base64,iVBORw0KGgo=''"
proof -
  let ?img = "''data:image/jpeg;base64,/9j/2wBD''"
  let ?opt = "''data:image/jpeg;base64,/9j/4AAQ''"
  have key: "\<not> falsy (API_KEY (sample_env r))" for r
    by (simp add: sample_env_def falsy_def)
  have rs: "resizeImage (sample_env r) ?img 1024 = Fulfilled ?opt" for r
    by (rule sample_env_resize) simp
  have gc: "generateContent (sample_env (respond ps)) (split_comma_1 ?opt)
              = Fulfilled (Response (Some [Candidate (Some (Content (Some ps)))]))" for ps
    by (simp add: sample_env_def respond_def)
  have "snd (transformToWatercolor
          (sample_env (respond [text_part ''Here is'', text_part ''your painting''])) ?img)
        = Rejected (Some network_message)"
    by (subst transform_empty_result [OF key rs gc])
       (simp_all add: parts_of_respond text_part_def)
  moreover have "snd (transformToWatercolor
          (sample_env (respond [text_part ''Here is'', image_part ''iVBORw0KGgo=''])) ?img)
        = Fulfilled ''data:image/png;base64,iVBORw0KGgo=''"
    by (subst transform_returns_first_image
          [OF key rs gc, where ts = "[text_part ''Here is'']"
              and p = "image_part ''iVBORw0KGgo=''" and rest = "[]"
              and b = "Blob (Some ''iVBORw0KGgo='') (Some ''image/png'')"])
       (simp_all add: parts_of_respond text_part_def image_part_def js_string_def)
  ultimately show ?thesis by (simp add: network_message_def)
qed

text \<open>
  Claim C10. \<^verbatim>\<open>resizeImage\<close> has no error path: its promise has no
  \<^verbatim>\<open>reject\<close> and the image no \<^verbatim>\<open>onerror\<close> handler. For an image that cannot be
  decoded, such as the \<^verbatim>\<open>data:,\<close> of an empty canvas, the promise never settles and
  neither does \<^verbatim>\<open>transformToWatercolor\<close>: no decode error reaches the caller.
\<close>

theorem undecodable_image_never_settles:
  "resizeImage (sample_env (respond [image_part ''iVBORw0KGgo=''])) ''data:,'' 1024 = Pending
   \<and> transformToWatercolor (sample_env (respond [image_part ''iVBORw0KGgo=''])) ''data:,''
       = ([Normalize ''data:,''], Pending)"
proof -
  have d: "decode (sample_env r) ''data:,'' = None" for r
    by (simp add: sample_env_def)
  have k: "\<not> falsy (API_KEY (sample_env r))" for r
    by (simp add: sample_env_def falsy_def)
  show ?thesis
    by (simp add: transformToWatercolor_def resizeImage_undecodable [OF d] k)
qed


subsection \<open>The still frame\<close>

lemma front_matrix:
  "scale (- 1) 1 (translate w 0 identity_matrix) = Matrix (- 1) 0 0 1 w 0"
  by (simp add: identity_matrix_def)

lemma floor_half: "\<lfloor>(of_nat n :: rat) + 1 / 2\<rfloor> = int n"
  by (simp add: floor_eq_iff)

lemma sample_front:
  assumes "well_formed v" and X: "X < videoWidth v" and Y: "Y < videoHeight v"
  shows "sample (Matrix (- 1) 0 0 1 (of_nat (videoWidth v)) 0) v 0 0
           (of_nat (videoWidth v)) (of_nat (videoHeight v)) X Y
         = Some (rev (frame v ! Y) ! X)"
proof -
  let ?w = "videoWidth v"
  from assms have rows: "Y < length (frame v)" and len: "length (frame v ! Y) = ?w"
    by (auto simp: well_formed_def list_all_length)
  define k where "k = ?w - Suc X"
  have k: "?w = Suc (X + k)" using X by (simp add: k_def)
  have col: "nat \<lfloor>(of_nat k + 1 / 2 :: rat)\<rfloor> = k" by (simp add: floor_half)
  have kw: "k < ?w" using k by simp
  have iny: "(of_nat Y :: rat) + 1 / 2 < of_nat (videoHeight v)"
  proof -
    from Y have "Suc Y \<le> videoHeight v" by simp
    then have "(of_nat (Suc Y) :: rat) \<le> of_nat (videoHeight v)" by (simp only: of_nat_le_iff)
    then show ?thesis by simp
  qed
  have w0: "(0::rat) < of_nat ?w" and h0: "(0::rat) < of_nat (videoHeight v)"
    using X Y by simp_all
  have "sample (Matrix (- 1) 0 0 1 (of_nat ?w) 0) v 0 0 (of_nat ?w) (of_nat (videoHeight v)) X Y
        = Some (frame v ! Y ! k)"
  proof -
    have f0: "\<lfloor>(1 / 2 :: rat)\<rfloor> = 0" by (rule floor_unique) simp_all
    have "(of_nat ?w :: rat) - (of_nat X + 1 / 2) = of_nat k + 1 / 2" by (simp add: k)
    then have c2: "nat \<lfloor>(of_nat ?w :: rat) - (of_nat X + 1 / 2)\<rfloor> = k"
      by (simp only: col)
    have c3: "(of_nat X :: rat) + 1 / 2 \<le> of_nat ?w" by (simp add: k)
    show ?thesis
      using w0 h0 iny rows len kw
      by (simp add: Let_def f0 c2 c3)
  qed
  moreover have "rev (frame v ! Y) ! X = frame v ! Y ! k"
    using X len by (simp add: rev_nth k_def)
  ultimately show ?thesis by simp
qed


lemma sample_back:
  assumes "well_formed v" and X: "X < videoWidth v" and Y: "Y < videoHeight v"
  shows "sample identity_matrix v 0 0 (of_nat (videoWidth v)) (of_nat (videoHeight v)) X Y
         = Some (frame v ! Y ! X)"
proof -
  from assms have rows: "Y < length (frame v)" and len: "length (frame v ! Y) = videoWidth v"
    by (auto simp: well_formed_def list_all_length)
  have f0: "\<lfloor>(1 / 2 :: rat)\<rfloor> = 0" by (rule floor_unique) simp_all
  have inside: "(of_nat n :: rat) + 1 / 2 < of_nat m" if "n < m" for n m
  proof -
    from that have "Suc n \<le> m" by simp
    then have "(of_nat (Suc n) :: rat) \<le> of_nat m" by (simp only: of_nat_le_iff)
    then show ?thesis by simp
  qed
  have w0: "(0::rat) < of_nat (videoWidth v)" and h0: "(0::rat) < of_nat (videoHeight v)"
    using X Y by simp_all
  show ?thesis
    using w0 h0 inside [OF X] inside [OF Y] rows len X
    by (simp add: identity_matrix_def Let_def f0)
qed

lemma bitmap_rows:
  assumes "\<And>X Y. X < canvas_width cv \<Longrightarrow> Y < canvas_height cv \<Longrightarrow> pixel cv X Y = g (rows ! Y ! X)"
    and "length rows = canvas_height cv"
    and "list_all (\<lambda>row. length row = canvas_width cv) rows"
  shows "bitmap cv = map (map g) rows"
proof (rule nth_equalityI)
  show "length (bitmap cv) = length (map (map g) rows)"
    using assms(2) by (simp add: bitmap_def)
next
  fix Y assume "Y < length (bitmap cv)"
  then have Y: "Y < canvas_height cv" by (simp add: bitmap_def)
  with assms have len: "length (rows ! Y) = canvas_width cv"
    by (simp add: list_all_length)
  have "map (\<lambda>X. pixel cv X Y) [0 ..< canvas_width cv] = map g (rows ! Y)"
    by (rule nth_equalityI) (simp_all add: len assms(1) Y)
  then show "bitmap cv ! Y = map (map g) rows ! Y"
    using Y assms(2) by (simp add: bitmap_def)
qed

text \<open>
  Claim C9. With a video element, a canvas and a context present, and a frame of
  \<^verbatim>\<open>videoWidth\<close> by \<^verbatim>\<open>videoHeight\<close> pixels, the image handed to
  \<^verbatim>\<open>onCapture\<close> in the front-facing mode is the encoding, at quality 0.95, of the
  frame with every row reversed: the same number of rows and columns as the frame,
  mirrored left to right. In the back-facing mode it is the encoding of the frame as
  it is.
\<close>

theorem capture_mirrors_front_camera:
  assumes "well_formed v" and "0 < videoWidth v" and "0 < videoHeight v"
  shows "capturePhoto enc User (Some v) True True
           = Some (enc (map (\<lambda>row. map Some (rev row)) (frame v)) (95 / 100))
       \<and> capturePhoto enc Environment (Some v) True True
           = Some (enc (map (\<lambda>row. map Some row) (frame v)) (95 / 100))"
proof -
  let ?w = "videoWidth v" and ?h = "videoHeight v"
  let ?mirrored = "drawImage (Matrix (- 1) 0 0 1 (of_nat ?w) 0) v 0 0 (of_nat ?w) (of_nat ?h) (blank ?w ?h)"
  let ?plain = "drawImage identity_matrix v 0 0 (of_nat ?w) (of_nat ?h) (blank ?w ?h)"
  from assms(1) have len: "length (frame v) = ?h"
    and rows: "list_all (\<lambda>row. length row = ?w) (frame v)"
    by (simp_all add: well_formed_def)
  have rrows: "list_all (\<lambda>row. length row = ?w) (map rev (frame v))"
    using rows by (simp add: list_all_length)
  have "bitmap ?mirrored = map (map Some) (map rev (frame v))"
  proof (rule bitmap_rows)
    fix X Y assume "X < canvas_width ?mirrored" "Y < canvas_height ?mirrored"
    then have "X < ?w" "Y < ?h" by (simp_all add: drawImage_def blank_def)
    then show "pixel ?mirrored X Y = Some (map rev (frame v) ! Y ! X)"
      using sample_front [OF assms(1)] len by (simp add: drawImage_def)
  qed (simp_all add: drawImage_def blank_def len rrows)
  then have user_bitmap: "bitmap ?mirrored = map (\<lambda>row. map Some (rev row)) (frame v)"
    by simp
  have env_bitmap: "bitmap ?plain = map (map Some) (frame v)"
  proof (rule bitmap_rows)
    fix X Y assume "X < canvas_width ?plain" "Y < canvas_height ?plain"
    then have "X < ?w" "Y < ?h" by (simp_all add: drawImage_def blank_def)
    then show "pixel ?plain X Y = Some (frame v ! Y ! X)"
      using sample_back [OF assms(1)] by (simp add: drawImage_def)
  qed (simp_all add: drawImage_def blank_def len rows)
  have dims: "canvas_width ?mirrored = ?w" "canvas_height ?mirrored = ?h"
    "canvas_width ?plain = ?w" "canvas_height ?plain = ?h"
    by (simp_all add: drawImage_def blank_def)
  show ?thesis
    using assms(2,3) len rows
    by (simp add: capturePhoto_def Let_def front_matrix canvas_toDataURL_def dims user_bitmap env_bitmap)
qed


text \<open>
  The theorem on a frame of three by two pixels.
\<close>

theorem capture_mirrors_front_camera_witness:
  "well_formed \<lparr>videoWidth = 3, videoHeight = 2, frame = [''abc'', ''def'']\<rparr>
   \<and> capturePhoto raw_encoder User
        (Some \<lparr>videoWidth = 3, videoHeight = 2, frame = [''abc'', ''def'']\<rparr>) True True
      = Some ''cba/fed/''
   \<and> capturePhoto raw_encoder Environment
        (Some \<lparr>videoWidth = 3, videoHeight = 2, frame = [''abc'', ''def'']\<rparr>) True True
      = Some ''abc/def/''"
  using capture_mirrors_front_camera
    [of "\<lparr>videoWidth = 3, videoHeight = 2, frame = [''abc'', ''def'']\<rparr>" raw_encoder]
  by (simp add: well_formed_def raw_encoder_def)


subsection \<open>The camera session\<close>

lemma stopStream_live: "live (stopStream seen dv) = (case seen of None \<Rightarrow> live dv | Some s \<Rightarrow> removeAll s (live dv))"
  by (simp add: stopStream_def setStream_def split: option.splits)

lemma startCamera_live: "live (startCamera i seen dv) = live (stopStream seen dv)"
  by (simp add: startCamera_def setError_def Let_def)

lemma switch_stops_current_stream:
  assumes "mounted dv = Some c" and "cameraError c = None" and "stream c = Some s"
  shows "s \<notin> set (live (camera_step SwitchFacing dv))"
  using assms
  by (cases "isActive c")
     (auto simp: rerender_def effect_body_def Let_def startCamera_live stopStream_live
        split: option.splits)

text \<open>
  Claim C8. The cleanup kept by the effect is the \<^verbatim>\<open>stopStream\<close> of the render in
  which the effect last ran, and that render saw the stream as it was before the
  camera was acquired. After mount, acquisition and unmount the session is still live
  and no component owns it; mounting again acquires a second session beside it.
\<close>

theorem unmount_leaves_session_live:
  "live (camera_run [Mount True, GotStream 0, Unmount] no_device) = [0]
   \<and> mounted (camera_run [Mount True, GotStream 0, Unmount] no_device) = None
   \<and> live (camera_run [Mount True, GotStream 0, Unmount, Mount True, GotStream 0] no_device)
       = [0, 1]"
  by (simp add: camera_run_def no_device_def effect_body_def startCamera_def stopStream_def
      setError_def setStream_def remove_nth_def)


subsection \<open>The application controller\<close>

lemma transform_rejection_message:
  assumes "snd (transformToWatercolor ev img) = Rejected m"
  shows "m = Some missing_key_message \<or> m = Some safety_message \<or> m = Some network_message"
proof (cases "falsy (API_KEY ev)")
  case True
  with assms show ?thesis by (simp add: transformToWatercolor_def)
next
  case False
  show ?thesis
  proof (cases "resizeImage ev img 1024")
    case (Fulfilled optimized)
    with False assms show ?thesis
      using catch_block_cases [of "Some empty_result_message"]
      by (cases "generateContent ev (split_comma_1 optimized)")
         (auto simp: transformToWatercolor_def Let_def catch_block_def split: if_splits)
  next
    case (Rejected e)
    then show ?thesis by (simp add: resizeImage_never_rejects)
  next
    case Pending
    with False assms show ?thesis by (simp add: transformToWatercolor_def)
  qed
qed

lemma message_or_default_transform:
  assumes "snd (transformToWatercolor ev img) = Rejected m"
  shows "\<exists>t. m = Some t \<and> t \<noteq> [] \<and> message_or_default m = t"
  using transform_rejection_message [OF assms]
  by (auto simp: message_or_default_def missing_key_message_def safety_message_def
      network_message_def)

lemma reset_fields:
  "originalImage (reset s) = None \<and> transformedImage (reset s) = None
   \<and> state (reset s) = Camera \<and> showComparison (reset s) = False
   \<and> error (reset s) = error s \<and> awaited (reset s) = awaited s"
  by (simp add: reset_def)








lemma sample_env_transform_rejected:
  "img \<noteq> ''data:,'' \<Longrightarrow>
   snd (transformToWatercolor (sample_env (Rejected m)) img) = catch_block m"
proof -
  assume img: "img \<noteq> ''data:,''"
  have k: "\<not> falsy (API_KEY (sample_env r))" for r
    by (simp add: sample_env_def falsy_def)
  have g: "generateContent (sample_env (Rejected m)) x = Rejected m" for x
    by (simp add: sample_env_def)
  show ?thesis
    by (simp add: transformToWatercolor_def sample_env_resize [OF img] k g Let_def)
qed



lemma choosy_resize: "s \<noteq> ''data:,'' \<Longrightarrow> resizeImage choosy_env s 1024 = Fulfilled s"
  by (simp add: resizeImage_def choosy_env_def split: prod.splits)

lemma choosy_paints_A:
  "snd (transformToWatercolor choosy_env ''data:image/jpeg;base64,AAAA'')
   = Fulfilled ''data:image/png;base64,paintedAAAA''"
proof -
  have k: "\<not> falsy (API_KEY choosy_env)" by (simp add: choosy_env_def falsy_def)
  have r: "resizeImage choosy_env ''data:image/jpeg;base64,AAAA'' 1024
             = Fulfilled ''data:image/jpeg;base64,AAAA''"
    by (rule choosy_resize) simp
  have p: "split_comma_1 ''data:image/jpeg;base64,AAAA'' = Some ''AAAA''"
    by (simp add: split_comma_1_def)
  show ?thesis
    by (simp add: transformToWatercolor_def k r p Let_def)
       (simp add: choosy_env_def parts_of_def js_string_def)
qed

lemma choosy_fails_B:
  "snd (transformToWatercolor choosy_env ''data:image/jpeg;base64,BBBB'')
   = Rejected (Some network_message)"
proof -
  have k: "\<not> falsy (API_KEY choosy_env)" by (simp add: choosy_env_def falsy_def)
  have r: "resizeImage choosy_env ''data:image/jpeg;base64,BBBB'' 1024
             = Fulfilled ''data:image/jpeg;base64,BBBB''"
    by (rule choosy_resize) simp
  have p: "split_comma_1 ''data:image/jpeg;base64,BBBB'' = Some ''BBBB''"
    by (simp add: split_comma_1_def)
  show ?thesis
    by (simp add: transformToWatercolor_def k r p Let_def)
       (simp add: choosy_env_def catch_block_def)
qed

lemma overlapping_fail_then_paint:
  "app_run choosy_env
     [OpenStudio, Capture ''data:image/jpeg;base64,BBBB'',
      Capture ''data:image/jpeg;base64,AAAA'', Settle 0, Settle 0]
   = \<lparr>state = Preview, originalImage = Some ''data:image/jpeg;base64,AAAA'',
      transformedImage = Some ''data:image/png;base64,paintedAAAA'',
      error = Some network_message, showComparison = False, awaited = []\<rparr>"
  by (simp add: app_run_def app_from_def initial_app_def handleCapture_begin_def
      handleCapture_resume_def choosy_paints_A choosy_fails_B remove_nth_def
      message_or_default_def network_message_def)

text \<open>
  Claim C5. \<^verbatim>\<open>reset\<close> assigns the two images, the state and the comparison flag,
  but never the error (\<open>reset_fields\<close>). A first capture whose transformation fails
  and a second capture, taken while the first is awaited, whose transformation
  succeeds lead to \<^verbatim>\<open>preview\<close> with the error of the first still stored; after the
  reset button both images are cleared and the state is \<^verbatim>\<open>camera\<close>, but the error
  is still there.
\<close>

theorem reset_leaves_error_set:
  "state (app_run choosy_env
            [OpenStudio, Capture ''data:image/jpeg;base64,BBBB'',
             Capture ''data:image/jpeg;base64,AAAA'', Settle 0, Settle 0]) = Preview
   \<and> app_step choosy_env ResetClick
        (app_run choosy_env
            [OpenStudio, Capture ''data:image/jpeg;base64,BBBB'',
             Capture ''data:image/jpeg;base64,AAAA'', Settle 0, Settle 0])
      = \<lparr>state = Camera, originalImage = None, transformedImage = None,
         error = Some ''Network error. Please check your connection and try again.'',
         showComparison = False, awaited = []\<rparr>"
  by (simp add: overlapping_fail_then_paint reset_def network_message_def)




text \<open>
  Claim C7. When an awaited transformation rejects, the rejection has a message, and
  the controller stores that message as the error and sets the state to
  \<^verbatim>\<open>camera\<close>; the original image, the transformed image and the comparison flag
  are as before.
\<close>

theorem transform_failure_returns_to_camera:
  assumes "k < length (awaited s)"
    and "snd (transformToWatercolor ev (awaited s ! k)) = Rejected m"
  shows "\<exists>t. m = Some t
       \<and> app_step ev (Settle k) s
           = s\<lparr>error := Some t, state := Camera, awaited := remove_nth k (awaited s)\<rparr>"
  using assms message_or_default_transform [OF assms(2)]
  by (auto simp: handleCapture_resume_def)

lemma sample_processing_run:
  "app_run ev [OpenStudio, Capture ''data:image/jpeg;base64,/9j/2wBD'']
   = \<lparr>state = Processing, originalImage = Some ''data:image/jpeg;base64,/9j/2wBD'',
      transformedImage = None, error = None, showComparison = False,
      awaited = [''data:image/jpeg;base64,/9j/2wBD'']\<rparr>"
  by (simp add: app_run_def app_from_def initial_app_def handleCapture_begin_def)

text \<open>
  The theorem for a capture whose remote call fails.
\<close>

theorem transform_failure_returns_to_camera_witness:
  "app_step (sample_env (Rejected (Some ''fetch failed''))) (Settle 0)
     (app_run (sample_env (Rejected (Some ''fetch failed'')))
        [OpenStudio, Capture ''data:image/jpeg;base64,/9j/2wBD''])
   = \<lparr>state = Camera, originalImage = Some ''data:image/jpeg;base64,/9j/2wBD'',
      transformedImage = None,
      error = Some ''Network error. Please check your connection and try again.'',
      showComparison = False, awaited = []\<rparr>"
proof -
  let ?ev = "sample_env (Rejected (Some ''fetch failed''))"
  let ?s = "app_run ?ev [OpenStudio, Capture ''data:image/jpeg;base64,/9j/2wBD'']"
  have k: "0 < length (awaited ?s)" by (simp add: sample_processing_run)
  have r: "snd (transformToWatercolor ?ev (awaited ?s ! 0)) = Rejected (Some network_message)"
    by (simp add: sample_processing_run sample_env_transform_rejected catch_block_def)
  from transform_failure_returns_to_camera [OF k r]
  show ?thesis
    by (simp add: sample_processing_run remove_nth_def network_message_def)
qed


end
